theory Spec2Isabelle
  imports Complex_Main
begin

section \<open>Python values, exceptions and the library calls the scripts rely on\<close>

text \<open>
  The values \<open>json.load\<close> and \<open>json.loads\<close> return: \<open>None\<close>, \<open>bool\<close>, \<open>int\<close>,
  \<open>float\<close>, \<open>str\<close>, \<open>list\<close> and \<open>dict\<close>. A \<open>dict\<close> is an association list in
  insertion order, read with \<open>map_of\<close>. The type \<open>'f\<close> stands for Python's \<open>float\<close>:
  its values are never inspected here and every operation on them is a parameter
  (\<open>float_ops\<close>), so nothing below depends on how doubles round.
\<close>

datatype 'f json =
    JNull
  | JBool bool
  | JInt int
  | JFloat 'f
  | JStr string
  | JArr "'f json list"
  | JObj "(string \<times> 'f json) list"

text \<open>
  Exceptions, by class. The string is the message where the scripts raise the exception
  themselves, and the file name or key where the interpreter raises it.
  \<open>LibraryError\<close> is any exception of a library call that the scripts do not catch.
\<close>

datatype error =
    FileNotFoundError string
  | IsADirectoryError string
  | JSONDecodeError
  | ValueError string
  | KeyError string
  | TypeError
  | AttributeError
  | OverflowError
  | LibraryError string

record 'f float_ops =
  float_of_int :: "int \<Rightarrow> error + 'f"
  float_of_str :: "string \<Rightarrow> error + 'f"
  int_truediv :: "int \<Rightarrow> int \<Rightarrow> error + 'f"
  float_mul :: "'f \<Rightarrow> 'f \<Rightarrow> 'f"
  float_add :: "'f \<Rightarrow> 'f \<Rightarrow> 'f"

text \<open>\<open>float(v)\<close>: a float is returned as it is, \<open>bool\<close> is a subclass of \<open>int\<close>.\<close>

fun py_float :: "'f float_ops \<Rightarrow> 'f json \<Rightarrow> error + 'f" where
  "py_float ops (JFloat x) = Inr x"
| "py_float ops (JInt n) = float_of_int ops n"
| "py_float ops (JBool b) = float_of_int ops (if b then 1 else 0)"
| "py_float ops (JStr s) = float_of_str ops s"
| "py_float ops JNull = Inl TypeError"
| "py_float ops (JArr xs) = Inl TypeError"
| "py_float ops (JObj kvs) = Inl TypeError"

text \<open>\<open>v[k]\<close> for a string key \<open>k\<close>.\<close>

fun getitem :: "'f json \<Rightarrow> string \<Rightarrow> error + 'f json" where
  "getitem (JObj kvs) k = (case map_of kvs k of None \<Rightarrow> Inl (KeyError k) | Some v \<Rightarrow> Inr v)"
| "getitem v k = Inl TypeError"

text \<open>\<open>v.get(k, d)\<close>: only a \<open>dict\<close> has the method.\<close>

fun py_get :: "'f json \<Rightarrow> string \<Rightarrow> 'f json \<Rightarrow> error + 'f json" where
  "py_get (JObj kvs) k d = Inr (case map_of kvs k of None \<Rightarrow> d | Some v \<Rightarrow> v)"
| "py_get v k d = Inl AttributeError"

text \<open>
  The items a \<open>for\<close> loop over \<open>v\<close> visits: the elements of a list, the keys of a
  \<open>dict\<close>, the characters of a \<open>str\<close>; anything else is not iterable.
\<close>

fun py_iter :: "'f json \<Rightarrow> error + 'f json list" where
  "py_iter (JArr xs) = Inr xs"
| "py_iter (JObj kvs) = Inr (map (\<lambda>kv. JStr (fst kv)) kvs)"
| "py_iter (JStr s) = Inr (map (\<lambda>c. JStr [c]) s)"
| "py_iter v = Inl TypeError"

definition newline :: string where
  "newline = [CHR 0x0A]"

text \<open>\<open>sep.join(xs)\<close> on strings.\<close>

fun join :: "string \<Rightarrow> string list \<Rightarrow> string" where
  "join sep [] = []"
| "join sep [x] = x"
| "join sep (x # y # ys) = x @ sep @ join sep (y # ys)"

text \<open>\<open>join\<close> raises \<open>TypeError\<close> at the first item that is not a \<open>str\<close>.\<close>

fun str_items :: "'f json list \<Rightarrow> error + string list" where
  "str_items [] = Inr []"
| "str_items (JStr s # vs) = (case str_items vs of Inl e \<Rightarrow> Inl e | Inr ss \<Rightarrow> Inr (s # ss))"
| "str_items (v # vs) = Inl TypeError"

text \<open>Evaluating \<open>f\<close> on the items in order; the first exception ends the evaluation.\<close>

fun map_err :: "('a \<Rightarrow> error + 'b) \<Rightarrow> 'a list \<Rightarrow> error + 'b list" where
  "map_err f [] = Inr []"
| "map_err f (x # xs) =
     (case f x of
        Inl e \<Rightarrow> Inl e
      | Inr y \<Rightarrow> (case map_err f xs of Inl e \<Rightarrow> Inl e | Inr ys \<Rightarrow> Inr (y # ys)))"

subsection \<open>Files\<close>

datatype node = File string | Dir

type_synonym files = "string \<Rightarrow> node option"

text \<open>\<open>open(p, 'r')\<close> followed by reading the whole file.\<close>

definition read_file :: "files \<Rightarrow> string \<Rightarrow> error + string" where
  "read_file fs p =
     (case fs p of
        None \<Rightarrow> Inl (FileNotFoundError p)
      | Some Dir \<Rightarrow> Inl (IsADirectoryError p)
      | Some (File c) \<Rightarrow> Inr c)"

section \<open>meeting\_analyzer.py\<close>

subsection \<open>\<open>MeetingAnalyzer._load_prices\<close>\<close>

record 'f prices =
  input_rate :: 'f
  output_rate :: 'f

definition target_model :: string where
  "target_model = ''Gemini 1.5 Pro''"

text \<open>
  The loop of lines 18 to 24 over the records of the price table; the empty list is the
  end of the loop, where line 24 raises.
\<close>

fun find_pricing :: "'f float_ops \<Rightarrow> 'f json list \<Rightarrow> error + 'f prices" where
  "find_pricing ops [] = Inl (ValueError ''Gemini 1.5 Pro pricing not found in price file'')"
| "find_pricing ops (model # rest) =
     (case getitem model ''Model'' of
        Inl e \<Rightarrow> Inl e
      | Inr name \<Rightarrow>
          if name = JStr ''Gemini 1.5 Pro'' then
            (case getitem model ''Input'' of
               Inl e \<Rightarrow> Inl e
             | Inr i \<Rightarrow>
                 (case py_float ops i of
                    Inl e \<Rightarrow> Inl e
                  | Inr a \<Rightarrow>
                      (case getitem model ''Output'' of
                         Inl e \<Rightarrow> Inl e
                       | Inr out \<Rightarrow>
                           (case py_float ops out of
                              Inl e \<Rightarrow> Inl e
                            | Inr b \<Rightarrow> Inr \<lparr>input_rate = a, output_rate = b\<rparr>))))
          else find_pricing ops rest)"

text \<open>
  \<open>loads\<close> is \<open>json.load\<close> on the text of the file: \<open>None\<close> when the text is not JSON.
\<close>

definition load_prices ::
  "'f float_ops \<Rightarrow> (string \<Rightarrow> 'f json option) \<Rightarrow> files \<Rightarrow> string \<Rightarrow> error + 'f prices" where
  "load_prices ops loads fs price_file =
     (case read_file fs price_file of
        Inl e \<Rightarrow> Inl e
      | Inr content \<Rightarrow>
          (case loads content of
             None \<Rightarrow> Inl JSONDecodeError
           | Some prices \<Rightarrow>
               (case py_iter prices of
                  Inl e \<Rightarrow> Inl e
                | Inr models \<Rightarrow> find_pricing ops models)))"

subsection \<open>\<open>MeetingAnalyzer.analyze_meeting\<close>\<close>

record usage =
  prompt_token_count :: int
  candidates_token_count :: int

text \<open>
  A response of \<open>generate_content\<close>: its text, and \<open>usage_metadata\<close> when the object has
  the attribute (\<open>hasattr\<close>, line 65).
\<close>

record response =
  "text" :: string
  usage_metadata :: "usage option"

record token_usage =
  input_tokens :: int
  output_tokens :: int

record 'f loop_state =
  all_results :: "'f json list"
  total_tokens :: token_usage

definition initial_state :: "'f loop_state" where
  "initial_state = \<lparr>all_results = [], total_tokens = \<lparr>input_tokens = 0, output_tokens = 0\<rparr>\<rparr>"

definition prompt_template_before :: string where
  "prompt_template_before =
     ''Analyze the following meeting transcript and provide:'' @ newline @
     ''        1. A clear and concise summary of the main points discussed'' @ newline @
     ''        2. Key decisions or actions agreed upon, including who is responsible and any deadlines'' @ newline @
     ''        3. What went well in the meeting'' @ newline @
     ''        4. What could be improved about the meeting'' @ newline @
     newline @
     ''        Transcript:'' @ newline @
     ''        ''"

definition prompt_template_after :: string where
  "prompt_template_after =
     newline @
     newline @
     ''        Please format your response in JSON with these keys:'' @ newline @
     ''        - summary'' @ newline @
     ''        - actions'' @ newline @
     ''        - positives'' @ newline @
     ''        - improvements''"

text \<open>\<open>prompt_template.format(transcript=chunk)\<close>, line 61.\<close>

definition format_prompt :: "string \<Rightarrow> string" where
  "format_prompt chunk = prompt_template_before @ chunk @ prompt_template_after"

text \<open>Lines 64 to 67: the counts are added when the response has the metadata.\<close>

definition add_usage :: "response \<Rightarrow> token_usage \<Rightarrow> token_usage" where
  "add_usage r tok =
     (case usage_metadata r of
        None \<Rightarrow> tok
      | Some u \<Rightarrow>
          \<lparr>input_tokens = input_tokens tok + prompt_token_count u,
           output_tokens = output_tokens tok + candidates_token_count u\<rparr>)"

text \<open>
  Lines 69 to 74: the parsed value is appended; on \<open>JSONDecodeError\<close> a warning is
  printed and nothing is appended. \<open>loads\<close> is \<open>json.loads\<close>.
\<close>

definition add_result :: "(string \<Rightarrow> 'f json option) \<Rightarrow> response \<Rightarrow> 'f json list \<Rightarrow> 'f json list" where
  "add_result loads r results =
     (case loads (text r) of
        None \<Rightarrow> results
      | Some parsed_result \<Rightarrow> results @ [parsed_result])"

text \<open>The body of the loop after the response has arrived (lines 64 to 74).\<close>

definition process_response ::
  "(string \<Rightarrow> 'f json option) \<Rightarrow> response \<Rightarrow> 'f loop_state \<Rightarrow> 'f loop_state" where
  "process_response loads r st =
     \<lparr>all_results = add_result loads r (all_results st),
      total_tokens = add_usage r (total_tokens st)\<rparr>"

text \<open>
  The loop of lines 59 to 74. \<open>generate_content n prompt\<close> is the outcome of the
  \<open>n\<close>-th request of the run: a response, or the exception the call raises, which ends
  the run.
\<close>

fun process_chunks ::
  "(nat \<Rightarrow> string \<Rightarrow> error + response) \<Rightarrow> (string \<Rightarrow> 'f json option) \<Rightarrow>
   nat \<Rightarrow> string list \<Rightarrow> 'f loop_state \<Rightarrow> error + 'f loop_state" where
  "process_chunks generate_content loads n [] st = Inr st"
| "process_chunks generate_content loads n (chunk # chunks) st =
     (case generate_content n (format_prompt chunk) of
        Inl e \<Rightarrow> Inl e
      | Inr r \<Rightarrow>
          process_chunks generate_content loads (Suc n) chunks (process_response loads r st))"

record 'f combined_results =
  summary :: string
  actions :: "'f json list"
  positives :: "'f json list"
  improvements :: "'f json list"

text \<open>
  \<open>[item for r in all_results for item in r.get(key, [])]\<close>, lines 79 to 81.
\<close>

fun collect_items :: "string \<Rightarrow> 'f json list \<Rightarrow> error + 'f json list" where
  "collect_items key [] = Inr []"
| "collect_items key (r # rs) =
     (case py_get r key (JArr []) of
        Inl e \<Rightarrow> Inl e
      | Inr v \<Rightarrow>
          (case py_iter v of
             Inl e \<Rightarrow> Inl e
           | Inr items \<Rightarrow>
               (case collect_items key rs of
                  Inl e \<Rightarrow> Inl e
                | Inr later \<Rightarrow> Inr (items @ later))))"

text \<open>
  Lines 77 to 82. \<open>join\<close> first runs the generator to its end (every \<open>r.get\<close>), then
  checks that the items are strings.
\<close>

definition combine_results :: "'f json list \<Rightarrow> error + 'f combined_results" where
  "combine_results results =
     (case map_err (\<lambda>r. py_get r ''summary'' (JStr [])) results of
        Inl e \<Rightarrow> Inl e
      | Inr vs \<Rightarrow>
          (case str_items vs of
             Inl e \<Rightarrow> Inl e
           | Inr ss \<Rightarrow>
               (case collect_items ''actions'' results of
                  Inl e \<Rightarrow> Inl e
                | Inr acts \<Rightarrow>
                    (case collect_items ''positives'' results of
                       Inl e \<Rightarrow> Inl e
                     | Inr poss \<Rightarrow>
                         (case collect_items ''improvements'' results of
                            Inl e \<Rightarrow> Inl e
                          | Inr imps \<Rightarrow>
                              Inr \<lparr>summary = join newline ss, actions = acts,
                                   positives = poss, improvements = imps\<rparr>)))))"

record 'f costs =
  input_cost :: 'f
  output_cost :: 'f
  total_cost :: 'f

text \<open>
  Lines 85 to 90. \<open>tokens / 1000\<close> divides two \<open>int\<close>s into a \<open>float\<close> and raises
  \<open>OverflowError\<close> when the quotient is too large for one.
\<close>

definition calculate_costs :: "'f float_ops \<Rightarrow> token_usage \<Rightarrow> 'f prices \<Rightarrow> error + 'f costs" where
  "calculate_costs ops tok prices =
     (case int_truediv ops (input_tokens tok) 1000 of
        Inl e \<Rightarrow> Inl e
      | Inr qi \<Rightarrow>
          (case int_truediv ops (output_tokens tok) 1000 of
             Inl e \<Rightarrow> Inl e
           | Inr qo \<Rightarrow>
               Inr \<lparr>input_cost = float_mul ops qi (input_rate prices),
                    output_cost = float_mul ops qo (output_rate prices),
                    total_cost = float_add ops (float_mul ops qi (input_rate prices))
                                               (float_mul ops qo (output_rate prices))\<rparr>))"

text \<open>Lines 76 to 92: the merge, then the costs, then the pair that is returned.\<close>

definition report ::
  "'f float_ops \<Rightarrow> 'f prices \<Rightarrow> 'f loop_state \<Rightarrow> error + 'f combined_results \<times> 'f costs" where
  "report ops prices st =
     (case combine_results (all_results st) of
        Inl e \<Rightarrow> Inl e
      | Inr combined \<Rightarrow>
          (case calculate_costs ops (total_tokens st) prices of
             Inl e \<Rightarrow> Inl e
           | Inr costs \<Rightarrow> Inr (combined, costs)))"

text \<open>
  \<open>analyze_meeting\<close>, lines 26 to 92. \<open>split_text\<close> is the text splitter of line 32
  (chunk size 30000, overlap 1000), a library call.
\<close>

definition analyze_meeting ::
  "'f float_ops \<Rightarrow> (nat \<Rightarrow> string \<Rightarrow> error + response) \<Rightarrow> (string \<Rightarrow> 'f json option) \<Rightarrow>
   (string \<Rightarrow> string list) \<Rightarrow> files \<Rightarrow> 'f prices \<Rightarrow> string \<Rightarrow>
   error + 'f combined_results \<times> 'f costs" where
  "analyze_meeting ops generate_content loads split_text fs prices transcript_file =
     (case read_file fs transcript_file of
        Inl e \<Rightarrow> Inl e
      | Inr transcript \<Rightarrow>
          (case process_chunks generate_content loads 0 (split_text transcript) initial_state of
             Inl e \<Rightarrow> Inl e
           | Inr st \<Rightarrow> report ops prices st))"

section \<open>csv2json.py\<close>

record args =
  source :: string
  "output" :: "string option"


text \<open>
  What the script can change or show: the files, the calls of the CSV parser it has
  made so far, and the lines it has printed.
\<close>

record world =
  files :: files
  parsed :: "string list"
  printed :: "string list"


section \<open>Notions of the specification\<close>

subsection \<open>Price tables\<close>

text \<open>The record is the one for the target model.\<close>

definition is_target :: "'f json \<Rightarrow> bool" where
  "is_target r = (getitem r ''Model'' = Inr (JStr target_model))"


text \<open>The record has a model name, which is not the target model.\<close>

definition named_other :: "'f json \<Rightarrow> bool" where
  "named_other r =
     (case getitem r ''Model'' of Inl e \<Rightarrow> False | Inr name \<Rightarrow> name \<noteq> JStr target_model)"

subsection \<open>Runs of the request loop\<close>

text \<open>
  The outcomes of the requests that the loop makes for the chunks, in order, when none
  of them ends the run; the first request has number \<open>n\<close>.
\<close>

definition requests ::
  "(nat \<Rightarrow> string \<Rightarrow> error + response) \<Rightarrow> nat \<Rightarrow> string list \<Rightarrow> (error + response) list" where
  "requests generate_content n chunks =
     map (\<lambda>(i, chunk). generate_content i (format_prompt chunk)) (enumerate n chunks)"

text \<open>The parsed bodies of the responses that are JSON, in the order of the responses.\<close>

definition parsed_results :: "(string \<Rightarrow> 'f json option) \<Rightarrow> response list \<Rightarrow> 'f json list" where
  "parsed_results loads rs = List.map_filter (\<lambda>r. loads (text r)) rs"

text \<open>The token counts a response reports: zero where it reports none.\<close>

definition prompt_tokens :: "response \<Rightarrow> int" where
  "prompt_tokens r = (case usage_metadata r of None \<Rightarrow> 0 | Some u \<Rightarrow> prompt_token_count u)"

definition candidates_tokens :: "response \<Rightarrow> int" where
  "candidates_tokens r =
     (case usage_metadata r of None \<Rightarrow> 0 | Some u \<Rightarrow> candidates_token_count u)"

definition usage_total :: "response list \<Rightarrow> token_usage" where
  "usage_total rs =
     \<lparr>input_tokens = sum_list (map prompt_tokens rs),
      output_tokens = sum_list (map candidates_tokens rs)\<rparr>"

subsection \<open>Analysis results\<close>

text \<open>
  An AnalysisResult has the four fields of \<open>combined_results\<close>; the relations below
  tie the parsed body of a response to the AnalysisResult it denotes.
\<close>

fun field :: "'f json \<Rightarrow> string \<Rightarrow> 'f json option" where
  "field (JObj kvs) k = map_of kvs k"
| "field v k = None"

fun is_object :: "'f json \<Rightarrow> bool" where
  "is_object (JObj kvs) = True"
| "is_object v = False"


text \<open>
  An object in which any of the four fields may be missing: a missing summary stands for
  the empty text, a missing list for no items.
\<close>

definition fields_or_defaults :: "'f json \<Rightarrow> 'f combined_results \<Rightarrow> bool" where
  "fields_or_defaults r q =
     (is_object r \<and>
      (case field r ''summary'' of None \<Rightarrow> summary q = [] | Some v \<Rightarrow> v = JStr (summary q)) \<and>
      (case field r ''actions'' of None \<Rightarrow> actions q = [] | Some v \<Rightarrow> v = JArr (actions q)) \<and>
      (case field r ''positives'' of None \<Rightarrow> positives q = []
       | Some v \<Rightarrow> v = JArr (positives q)) \<and>
      (case field r ''improvements'' of None \<Rightarrow> improvements q = []
       | Some v \<Rightarrow> v = JArr (improvements q)))"



section \<open>Example inputs\<close>

text \<open>
  Floats that are rationals with exact arithmetic: the examples use only values on which
  doubles are exact too. \<open>float\<close> of a string is given for the one string the examples
  convert.
\<close>

definition example_ops :: "rat float_ops" where
  "example_ops =
     \<lparr>float_of_int = (\<lambda>n. Inr (of_int n)),
      float_of_str = (\<lambda>s. if s = ''0.25'' then Inr (1 / 4) else Inl (ValueError s)),
      int_truediv =
        (\<lambda>a b. if b = 0 then Inl (LibraryError ''ZeroDivisionError'')
               else Inr (of_int a / of_int b)),
      float_mul = (\<lambda>x y. x * y),
      float_add = (\<lambda>x y. x + y)\<rparr>"

text \<open>Price files and the tables they hold.\<close>

definition wrong_prices_text :: string where
  \<open>wrong_prices_text = ''[{"Model": "Wrong Model", "Input": 1.0, "Output": 1.0}]''\<close>

definition wrong_record :: "rat json" where
  "wrong_record =
     JObj [(''Model'', JStr ''Wrong Model''), (''Input'', JFloat 1), (''Output'', JFloat 1)]"

definition prices_text :: string where
  \<open>prices_text =
     ''[{"Model": "Other", "Input": 2.0, "Output": 4.0}, '' @
     ''{"Model": "Gemini 1.5 Pro", "Input": 0.5, "Output": 0.25}]''\<close>

definition other_record :: "rat json" where
  "other_record =
     JObj [(''Model'', JStr ''Other''), (''Input'', JFloat 2), (''Output'', JFloat 4)]"

definition gemini_record :: "rat json" where
  "gemini_record =
     JObj [(''Model'', JStr ''Gemini 1.5 Pro''), (''Input'', JFloat (1 / 2)),
           (''Output'', JFloat (1 / 4))]"

definition repeated_prices_text :: string where
  \<open>repeated_prices_text =
     ''[{"Model": "Other", "Input": 2.0, "Output": 4.0}, '' @
     ''{"Model": "Gemini 1.5 Pro", "Input": 1, "Output": "0.25"}, '' @
     ''{"Model": "Gemini 1.5 Pro", "Input": 8.0, "Output": 16.0}]''\<close>

definition first_gemini_record :: "rat json" where
  "first_gemini_record =
     JObj [(''Model'', JStr ''Gemini 1.5 Pro''), (''Input'', JInt 1),
           (''Output'', JStr ''0.25'')]"

definition second_gemini_record :: "rat json" where
  "second_gemini_record =
     JObj [(''Model'', JStr ''Gemini 1.5 Pro''), (''Input'', JFloat 8), (''Output'', JFloat 16)]"

text \<open>Response bodies and the values they parse to.\<close>

definition summary_a_text :: string where
  \<open>summary_a_text =
     ''{"summary": "A", "actions": ["a1"], "positives": [], "improvements": ["i1"]}''\<close>

definition summary_a :: "rat json" where
  "summary_a =
     JObj [(''summary'', JStr ''A''), (''actions'', JArr [JStr ''a1'']), (''positives'', JArr []),
           (''improvements'', JArr [JStr ''i1''])]"

definition summary_b_text :: string where
  \<open>summary_b_text =
     ''{"summary": "B", "actions": ["b1", "b2"], "positives": ["p1"], "improvements": []}''\<close>

definition summary_b :: "rat json" where
  "summary_b =
     JObj [(''summary'', JStr ''B''), (''actions'', JArr [JStr ''b1'', JStr ''b2'']),
           (''positives'', JArr [JStr ''p1'']), (''improvements'', JArr [])]"

definition partial_text :: string where
  \<open>partial_text = ''{"positives": ["p2"]}''\<close>

definition partial_result :: "rat json" where
  "partial_result = JObj [(''positives'', JArr [JStr ''p2''])]"

text \<open>\<open>json.loads\<close> on the texts above; no other text of the examples is JSON.\<close>

definition example_loads :: "string \<Rightarrow> rat json option" where
  "example_loads s =
     (if s = wrong_prices_text then Some (JArr [wrong_record])
      else if s = prices_text then Some (JArr [other_record, gemini_record])
      else if s = repeated_prices_text
        then Some (JArr [other_record, first_gemini_record, second_gemini_record])
      else if s = summary_a_text then Some summary_a
      else if s = summary_b_text then Some summary_b
      else if s = partial_text then Some partial_result
      else None)"

definition example_files :: files where
  "example_files =
     [''wrong_prices.json'' \<mapsto> File wrong_prices_text,
      ''prices.json'' \<mapsto> File prices_text,
      ''repeated_prices.json'' \<mapsto> File repeated_prices_text]"

text \<open>
  A run of three requests: the second response is not JSON, the third has no usage
  metadata.
\<close>

definition response_a :: response where
  "response_a =
     \<lparr>text = summary_a_text,
      usage_metadata = Some \<lparr>prompt_token_count = 100, candidates_token_count = 50\<rparr>\<rparr>"

definition response_invalid :: response where
  "response_invalid =
     \<lparr>text = ''Invalid JSON'',
      usage_metadata = Some \<lparr>prompt_token_count = 100, candidates_token_count = 50\<rparr>\<rparr>"

definition response_b :: response where
  "response_b = \<lparr>text = summary_b_text, usage_metadata = None\<rparr>"

definition example_chunks :: "string list" where
  "example_chunks = [''first part'', ''second part'', ''third part'']"

definition example_generate :: "nat \<Rightarrow> string \<Rightarrow> error + response" where
  "example_generate n prompt =
     (if n = 0 then Inr response_a else if n = 1 then Inr response_invalid else Inr response_b)"

text \<open>The AnalysisResults that the three parsed bodies denote.\<close>

definition result_a :: "rat combined_results" where
  "result_a =
     \<lparr>summary = ''A'', actions = [JStr ''a1''], positives = [], improvements = [JStr ''i1'']\<rparr>"

definition result_b :: "rat combined_results" where
  "result_b =
     \<lparr>summary = ''B'', actions = [JStr ''b1'', JStr ''b2''], positives = [JStr ''p1''],
      improvements = []\<rparr>"

definition result_partial :: "rat combined_results" where
  "result_partial = \<lparr>summary = [], actions = [], positives = [JStr ''p2''], improvements = []\<rparr>"




section \<open>The price table loader\<close>

lemma find_pricing_skip:
  "list_all named_other before \<Longrightarrow> find_pricing ops (before @ rest) = find_pricing ops rest"
  by (induction before) (auto simp: named_other_def target_model_def split: sum.splits)

lemma find_pricing_none:
  "list_all named_other records \<Longrightarrow>
   find_pricing ops records = Inl (ValueError ''Gemini 1.5 Pro pricing not found in price file'')"
  using find_pricing_skip [of records ops "[]"] by simp

lemma find_pricing_hit:
  "is_target r \<Longrightarrow> find_pricing ops (r # later) = find_pricing ops [r]"
  by (auto simp: is_target_def target_model_def split: sum.splits)



text \<open>
  C3: when the price file holds a list of records, each with a model name, and none of
  the names is the target model, loading fails with the error
  ``Gemini 1.5 Pro pricing not found in price file'', which names the model; no rates
  are returned.
\<close>

theorem load_prices_model_missing:
  assumes "fs price_file = Some (File content)"
    and "loads content = Some (JArr records)"
    and "list_all named_other records"
  shows "load_prices ops loads fs price_file =
           Inl (ValueError (target_model @ '' pricing not found in price file''))"
  using assms find_pricing_none [of records ops]
  by (simp add: load_prices_def read_file_def target_model_def)

theorem load_prices_model_missing_witness:
  "example_files ''wrong_prices.json'' = Some (File wrong_prices_text) \<and>
   example_loads wrong_prices_text = Some (JArr [wrong_record]) \<and>
   list_all named_other [wrong_record] \<and>
   load_prices example_ops example_loads example_files ''wrong_prices.json'' =
     Inl (ValueError ''Gemini 1.5 Pro pricing not found in price file'')"
proof -
  have f: "example_files ''wrong_prices.json'' = Some (File wrong_prices_text)"
    by (simp add: example_files_def)
  have l: "example_loads wrong_prices_text = Some (JArr [wrong_record])"
    by (simp add: example_loads_def)
  have n: "list_all named_other [wrong_record]"
    by (simp add: named_other_def wrong_record_def target_model_def)
  show ?thesis
    using f l n load_prices_model_missing
      [where fs = example_files and loads = example_loads and ops = example_ops, OF f l n]
    by (simp add: target_model_def)
qed



text \<open>
  C9: when the records before the first one for the target model have other model names,
  loading gives what that first record alone gives, its rates when they convert, whatever
  records come later in the table, records for the target model among them.
\<close>

theorem load_prices_first_match:
  assumes "fs price_file = Some (File content)"
    and "loads content = Some (JArr (before @ r # later))"
    and "list_all named_other before"
    and "is_target r"
  shows "load_prices ops loads fs price_file = find_pricing ops [r]"
  using assms find_pricing_skip [of before ops "r # later"] find_pricing_hit [of r ops later]
  by (simp add: load_prices_def read_file_def)

theorem load_prices_first_match_witness:
  "is_target first_gemini_record \<and> is_target second_gemini_record \<and>
   find_pricing example_ops [first_gemini_record] = Inr \<lparr>input_rate = 1, output_rate = 1 / 4\<rparr> \<and>
   load_prices example_ops example_loads example_files ''repeated_prices.json'' =
     Inr \<lparr>input_rate = 1, output_rate = 1 / 4\<rparr>"
proof -
  have f: "example_files ''repeated_prices.json'' = Some (File repeated_prices_text)"
    by (simp add: example_files_def)
  have l: "example_loads repeated_prices_text =
             Some (JArr ([other_record] @ first_gemini_record # [second_gemini_record]))"
    by (simp add: example_loads_def repeated_prices_text_def prices_text_def
        wrong_prices_text_def)
  have n: "list_all named_other [other_record]"
    by (simp add: named_other_def other_record_def target_model_def)
  have t: "is_target first_gemini_record"
    by (simp add: is_target_def first_gemini_record_def target_model_def)
  have t2: "is_target second_gemini_record"
    by (simp add: is_target_def second_gemini_record_def target_model_def)
  have v: "find_pricing example_ops [first_gemini_record] =
             Inr \<lparr>input_rate = 1, output_rate = 1 / 4\<rparr>"
    by (simp add: first_gemini_record_def example_ops_def)
  show ?thesis
    using t t2 v load_prices_first_match
      [where fs = example_files and loads = example_loads and ops = example_ops, OF f l n t] by simp
qed


section \<open>The request loop\<close>

lemma add_usage_eq:
  "add_usage r tok =
     \<lparr>input_tokens = input_tokens tok + prompt_tokens r,
      output_tokens = output_tokens tok + candidates_tokens r\<rparr>"
  by (simp add: add_usage_def prompt_tokens_def candidates_tokens_def split: option.splits)

lemma parsed_results_Cons:
  "parsed_results loads (r # rs) =
     (case loads (text r) of None \<Rightarrow> [] | Some v \<Rightarrow> [v]) @ parsed_results loads rs"
  by (simp add: parsed_results_def map_filter_def split: option.splits)



text \<open>
  A run in which every request returns: the loop ends with the parsed bodies, in order,
  and with the sums of the reported counts.
\<close>

lemma process_chunks_responses:
  "requests generate_content n chunks = map Inr rs \<Longrightarrow>
   process_chunks generate_content loads n chunks st =
     Inr \<lparr>all_results = all_results st @ parsed_results loads rs,
          total_tokens =
            \<lparr>input_tokens = input_tokens (total_tokens st) + sum_list (map prompt_tokens rs),
             output_tokens =
               output_tokens (total_tokens st) + sum_list (map candidates_tokens rs)\<rparr>\<rparr>"
proof (induction chunks arbitrary: n st rs)
  case Nil
  then show ?case by (simp add: requests_def parsed_results_def map_filter_def)
next
  case (Cons chunk chunks)
  from Cons.prems obtain r rs' where rs: "rs = r # rs'"
    and r: "generate_content n (format_prompt chunk) = Inr r"
    and rest: "requests generate_content (Suc n) chunks = map Inr rs'"
    by (cases rs) (auto simp: requests_def)
  show ?case
    using r Cons.IH [OF rest, of "process_response loads r st"]
    by (simp add: rs process_response_def add_usage_eq parsed_results_Cons add_result_def
        split: option.splits)
qed

text \<open>A request that raises ends the run with its exception.\<close>

lemma process_chunks_error:
  "requests generate_content n chunks = map Inr rs @ Inl e # later \<Longrightarrow>
   process_chunks generate_content loads n chunks st = Inl e"
proof (induction chunks arbitrary: n st rs)
  case Nil
  then show ?case by (simp add: requests_def)
next
  case (Cons chunk chunks)
  show ?case
  proof (cases rs)
    case Nil
    with Cons.prems show ?thesis by (simp add: requests_def)
  next
    case (Cons r rs')
    with Cons.prems have r: "generate_content n (format_prompt chunk) = Inr r"
      and rest: "requests generate_content (Suc n) chunks = map Inr rs' @ Inl e # later"
      by (auto simp: requests_def)
    show ?thesis using r Cons.IH [OF rest] by simp
  qed
qed

lemma process_chunks_initial:
  assumes "requests generate_content 0 chunks = map Inr rs"
  shows "process_chunks generate_content loads 0 chunks initial_state =
           Inr \<lparr>all_results = parsed_results loads rs, total_tokens = usage_total rs\<rparr>"
  using process_chunks_responses [OF assms, of loads initial_state]
  by (simp add: initial_state_def usage_total_def)

text \<open>
  \<open>analyze_meeting\<close> on a transcript for whose chunks every request returns: the merge and
  the costs are those of the parsed bodies and of the summed counts.
\<close>

lemma analyze_meeting_run:
  assumes "read_file fs transcript_file = Inr transcript"
    and "requests generate_content 0 (split_text transcript) = map Inr rs"
  shows "analyze_meeting ops generate_content loads split_text fs prices transcript_file =
           report ops prices
             \<lparr>all_results = parsed_results loads rs, total_tokens = usage_total rs\<rparr>"
  using assms(1) process_chunks_initial [OF assms(2), of loads]
  by (simp add: analyze_meeting_def)

lemma usage_total_insert:
  "usage_total (rs1 @ r # rs2) = add_usage r (usage_total (rs1 @ rs2))"
  by (simp add: usage_total_def add_usage_eq)

lemma example_requests:
  "requests example_generate 0 example_chunks =
     map Inr ([response_a] @ response_invalid # [response_b])"
  by (simp add: requests_def example_generate_def example_chunks_def enumerate_eq_zip
      upt_conv_Cons)











text \<open>
  C8: in a run in which every request returns, the loop ends without an exception. A
  response without usage metadata leaves the token total at the total of the other
  responses; a response with metadata adds its prompt token count to the input tokens
  and its candidates token count to the output tokens.
\<close>

theorem usage_metadata_counted:
  assumes "requests generate_content 0 chunks = map Inr (rs1 @ r # rs2)"
  shows "\<exists>st. process_chunks generate_content loads 0 chunks initial_state = Inr st \<and>
           total_tokens st =
             (case usage_metadata r of
                None \<Rightarrow> usage_total (rs1 @ rs2)
              | Some u \<Rightarrow>
                  \<lparr>input_tokens = input_tokens (usage_total (rs1 @ rs2)) + prompt_token_count u,
                   output_tokens =
                     output_tokens (usage_total (rs1 @ rs2)) + candidates_token_count u\<rparr>)"
  using process_chunks_initial [OF assms, of loads]
  by (simp add: usage_total_insert add_usage_def split: option.splits)

theorem usage_metadata_counted_witness:
  "usage_metadata response_b = None \<and>
   usage_metadata response_a =
     Some \<lparr>prompt_token_count = 100, candidates_token_count = 50\<rparr> \<and>
   usage_total [response_a, response_invalid] = \<lparr>input_tokens = 200, output_tokens = 100\<rparr> \<and>
   usage_total [response_invalid, response_b] = \<lparr>input_tokens = 100, output_tokens = 50\<rparr> \<and>
   (\<exists>st. process_chunks example_generate example_loads 0 example_chunks initial_state = Inr st \<and>
         total_tokens st = \<lparr>input_tokens = 200, output_tokens = 100\<rparr>)"
proof -
  have last: "requests example_generate 0 example_chunks =
      map Inr ([response_a, response_invalid] @ response_b # [])"
    using example_requests by simp
  have first: "requests example_generate 0 example_chunks =
      map Inr ([] @ response_a # [response_invalid, response_b])"
    using example_requests by simp
  have totals:
    "usage_total [response_a, response_invalid] = \<lparr>input_tokens = 200, output_tokens = 100\<rparr>"
    "usage_total [response_invalid, response_b] = \<lparr>input_tokens = 100, output_tokens = 50\<rparr>"
    by (simp_all add: usage_total_def prompt_tokens_def candidates_tokens_def response_a_def
        response_invalid_def response_b_def)
  have absent: "usage_metadata response_b = None" by (simp add: response_b_def)
  have present: "usage_metadata response_a =
      Some \<lparr>prompt_token_count = 100, candidates_token_count = 50\<rparr>"
    by (simp add: response_a_def)
  show ?thesis
    using usage_metadata_counted [where loads = example_loads, OF last]
      usage_metadata_counted [where loads = example_loads, OF first]
    by (simp add: totals absent present)
qed

section \<open>The merge\<close>

lemma str_items_JStr: "str_items (map (\<lambda>q. JStr (f q)) qs) = Inr (map f qs)"
  by (induction qs) auto

lemma map_err_get:
  "list_all2 (\<lambda>r q. py_get r k d = Inr (g q)) rs qs \<Longrightarrow>
   map_err (\<lambda>r. py_get r k d) rs = Inr (map g qs)"
  by (induction rs qs rule: list_all2_induct) auto

lemma collect_items_get:
  "list_all2 (\<lambda>r q. py_get r k (JArr []) = Inr (JArr (f q))) rs qs \<Longrightarrow>
   collect_items k rs = Inr (concat (map f qs))"
  by (induction rs qs rule: list_all2_induct) auto

text \<open>
  The merge of results on which each \<open>r.get\<close> of lines 78 to 81 gives a text or a list.
\<close>

lemma combine_results_get:
  assumes "list_all2 (\<lambda>r q. py_get r ''summary'' (JStr []) = Inr (JStr (summary q))) rs qs"
    and "list_all2 (\<lambda>r q. py_get r ''actions'' (JArr []) = Inr (JArr (actions q))) rs qs"
    and "list_all2 (\<lambda>r q. py_get r ''positives'' (JArr []) = Inr (JArr (positives q))) rs qs"
    and "list_all2 (\<lambda>r q. py_get r ''improvements'' (JArr []) = Inr (JArr (improvements q)))
           rs qs"
  shows "combine_results rs =
           Inr \<lparr>summary = join newline (map summary qs),
                actions = concat (map actions qs),
                positives = concat (map positives qs),
                improvements = concat (map improvements qs)\<rparr>"
  using map_err_get [OF assms(1)] collect_items_get [OF assms(2)]
    collect_items_get [OF assms(3)] collect_items_get [OF assms(4)]
  by (simp add: combine_results_def str_items_JStr)

lemma fields_or_defaults_get:
  assumes "fields_or_defaults r q"
  shows "py_get r ''summary'' (JStr []) = Inr (JStr (summary q))"
    and "py_get r ''actions'' (JArr []) = Inr (JArr (actions q))"
    and "py_get r ''positives'' (JArr []) = Inr (JArr (positives q))"
    and "py_get r ''improvements'' (JArr []) = Inr (JArr (improvements q))"
  using assms by (cases r; simp add: fields_or_defaults_def split: option.splits)+




text \<open>
  C10: when each parsed result is an object in which any of the four fields may be
  missing, and the fields that are present are a text and lists, the merge succeeds, and
  it is the merge of the results with the empty text for a missing summary and no items
  for a missing list.
\<close>

theorem merge_missing_fields:
  assumes "list_all2 fields_or_defaults rs qs"
  shows "combine_results rs =
           Inr \<lparr>summary = join newline (map summary qs),
                actions = concat (map actions qs),
                positives = concat (map positives qs),
                improvements = concat (map improvements qs)\<rparr>"
  by (rule combine_results_get)
    (rule list_all2_mono [OF assms], simp add: fields_or_defaults_get)+

theorem merge_missing_fields_witness:
  "list_all2 fields_or_defaults [summary_a, partial_result, summary_b]
     [result_a, result_partial, result_b] \<and>
   field partial_result ''summary'' = None \<and>
   combine_results [summary_a, partial_result, summary_b] =
     Inr \<lparr>summary = ''A'' @ newline @ newline @ ''B'',
          actions = [JStr ''a1'', JStr ''b1'', JStr ''b2''],
          positives = [JStr ''p2'', JStr ''p1''], improvements = [JStr ''i1'']\<rparr>"
proof -
  have h: "list_all2 fields_or_defaults [summary_a, partial_result, summary_b]
      [result_a, result_partial, result_b]"
    by (simp add: fields_or_defaults_def summary_a_def summary_b_def partial_result_def
        result_a_def result_b_def result_partial_def)
  have m: "field partial_result ''summary'' = None" by (simp add: partial_result_def)
  show ?thesis
    using h m merge_missing_fields [OF h]
    by (simp add: result_a_def result_b_def result_partial_def)
qed

section \<open>The converter\<close>



end
